theory Spec2Isabelle
  imports Complex_Main "HOL-Library.Monad_Syntax"
begin

section \<open>Rice husk circular economy simulator: the formula engines\<close>

text \<open>
  The repository holds four Python files. Two Streamlit scripts
  (\<^verbatim>\<open>Rice_Web_App.py\<close>, \<^verbatim>\<open>Rice_Web_App_updated.py\<close>) carry the same
  calculation block, the time-integrated emissions model (variant A). The desktop
  program \<^verbatim>\<open>updated_gui_ricehusk.py\<close> (method \<^verbatim>\<open>RiceHuskMath.calculate\<close>) and the
  older Streamlit script \<^verbatim>\<open>Rice_Web_App_OLD_BACKUP.py.py\<close> (function
  \<^verbatim>\<open>calculate\<close>) carry the flat-factor model with payback (variant B).

  Numbers: the Python code computes with \<^verbatim>\<open>int\<close> and \<^verbatim>\<open>float\<close>. The embedding
  computes with \<^typ>\<open>real\<close>: every decimal literal of the source is the rational it
  denotes, and every operation is exact. Rounding to binary64, overflow to infinity and
  NaN are therefore outside this model; integers supplied by the sliders embed in
  \<^typ>\<open>real\<close>.
\<close>

subsection \<open>Python arithmetic that can fail or that chooses\<close>

text \<open>
  \<^verbatim>\<open>a / b\<close> raises \<^verbatim>\<open>ZeroDivisionError\<close> when \<^verbatim>\<open>b\<close> is zero. It is the only
  exception the formulas can raise in this model, so a run that raises is \<open>None\<close> and
  a run that returns \<open>v\<close> is \<open>Some v\<close>.
\<close>

definition truediv :: "real \<Rightarrow> real \<Rightarrow> real option" where
  "truediv a b = (if b = 0 then None else Some (a / b))"

text \<open>\<^verbatim>\<open>max(a, b)\<close> keeps the first argument unless the second is strictly greater.\<close>

definition py_max :: "real \<Rightarrow> real \<Rightarrow> real" where
  "py_max a b = (if b > a then b else a)"

subsection \<open>Variant A: the calculation block of the two web scripts\<close>

text \<open>
  The module-level constants of \<^verbatim>\<open>Rice_Web_App.py\<close> lines 36--42 (and of
  \<^verbatim>\<open>Rice_Web_App_updated.py\<close> lines 33--39, the same values). The husk fraction
  \<^verbatim>\<open>0.22\<close>, the conversion \<^verbatim>\<open>3.6\<close>, the warming potential \<^verbatim>\<open>28\<close> and
  \<^verbatim>\<open>1000\<close> are literals of the calculation block itself.
\<close>

record scientific_constants =
  EF_FLOODED :: real
  EF_AWD :: real
  CV_HUSK :: real
  BIOCHAR_YIELD :: real
  PRICE_ELEC :: real
  PRICE_CHAR :: real
  PRICE_CARBON_CREDIT :: real

definition SCIENTIFIC_CONSTANTS :: scientific_constants where
  "SCIENTIFIC_CONSTANTS =
     \<lparr> EF_FLOODED = 1.30,
       EF_AWD = 0.75,
       CV_HUSK = 14,
       BIOCHAR_YIELD = 0.25,
       PRICE_ELEC = 7.0,
       PRICE_CHAR = 15.0,
       PRICE_CARBON_CREDIT = 2500 \<rparr>"

text \<open>Every variable the block assigns; the scripts read them all when rendering.\<close>

record web_app_values =
  total_paddy :: real
  husk_mass :: real
  energy_mj :: real
  energy_kwh :: real
  biochar_mass :: real
  methane_flooded :: real
  methane_awd :: real
  methane_avoided :: real
  co2_eq_tons :: real
  revenue_carbon :: real
  revenue_elec :: real
  revenue_char :: real
  total_revenue :: real

text \<open>
  \<^verbatim>\<open>Rice_Web_App.py\<close> lines 44--66, \<^verbatim>\<open>Rice_Web_App_updated.py\<close> lines 41--63:
  the statements in source order, the constants read from the record above.
\<close>

definition calculations ::
  "scientific_constants \<Rightarrow> real \<Rightarrow> real \<Rightarrow> real \<Rightarrow> real \<Rightarrow> web_app_values option" where
  "calculations c area yield_per_ha efficiency season_days = do {
     let total_paddy = area * yield_per_ha;
     let husk_mass = total_paddy * 0.22;
     let energy_mj = husk_mass * scientific_constants.CV_HUSK c * efficiency;
     energy_kwh \<leftarrow> truediv energy_mj 3.6;
     let biochar_mass = husk_mass * scientific_constants.BIOCHAR_YIELD c;
     let methane_flooded = scientific_constants.EF_FLOODED c * area * season_days;
     let methane_awd = scientific_constants.EF_AWD c * area * season_days;
     let methane_avoided = methane_flooded - methane_awd;
     co2_eq_tons \<leftarrow> truediv (methane_avoided * 28) 1000;
     let revenue_carbon = co2_eq_tons * scientific_constants.PRICE_CARBON_CREDIT c;
     let revenue_elec = energy_kwh * scientific_constants.PRICE_ELEC c;
     let revenue_char = biochar_mass * scientific_constants.PRICE_CHAR c;
     let total_revenue = revenue_elec + revenue_char + revenue_carbon;
     Some \<lparr> web_app_values.total_paddy = total_paddy,
            husk_mass = husk_mass,
            web_app_values.energy_mj = energy_mj,
            web_app_values.energy_kwh = energy_kwh,
            biochar_mass = biochar_mass,
            methane_flooded = methane_flooded,
            methane_awd = methane_awd,
            methane_avoided = methane_avoided,
            co2_eq_tons = co2_eq_tons,
            revenue_carbon = revenue_carbon,
            revenue_elec = revenue_elec,
            revenue_char = revenue_char,
            total_revenue = total_revenue \<rparr>
   }"

subsection \<open>Variant B: \<^verbatim>\<open>RiceHuskMath\<close> of the desktop program\<close>

text \<open>The attributes \<^verbatim>\<open>__init__\<close> sets on the object (lines 10--20).\<close>

record RiceHuskMath =
  HUSK_RATIO :: real
  LHV :: real
  GEN_EFF :: real
  BIOCHAR_YIELD :: real
  EF_FLOODED :: real
  EF_AWD :: real
  PRICE_ELEC :: real
  PRICE_CHAR :: real
  CAPEX_PER_KW :: real

definition RiceHuskMath_init :: RiceHuskMath where
  "RiceHuskMath_init =
     \<lparr> HUSK_RATIO = 0.22,
       LHV = 13.5,
       GEN_EFF = 0.30,
       BIOCHAR_YIELD = 0.20,
       EF_FLOODED = 30,
       EF_AWD = 16,
       PRICE_ELEC = 7.0,
       PRICE_CHAR = 15.0,
       CAPEX_PER_KW = 80000 \<rparr>"

text \<open>
  The local variables of a run of \<^verbatim>\<open>calculate\<close>, in both variant B sources (the
  desktop program names the seventh \<^verbatim>\<open>co2_equivalent\<close>, the old script
  \<^verbatim>\<open>co2_eq\<close>).
\<close>

record calculate_locals =
  total_paddy :: real
  total_husk :: real
  energy_mj :: real
  energy_kwh :: real
  biochar_kg :: real
  ch4_saved :: real
  co2_equivalent :: real
  capacity_kw :: real
  capex :: real
  revenue :: real
  opex :: real
  profit :: real
  payback :: real

text \<open>
  \<^verbatim>\<open>RiceHuskMath.calculate\<close>, lines 22--48: the body up to the \<^verbatim>\<open>return\<close>, keeping
  every local. The conditional expression of line 48 evaluates the division only in its
  \<^verbatim>\<open>profit > 0\<close> branch.
\<close>

definition RiceHuskMath_calculate_body ::
  "RiceHuskMath \<Rightarrow> real \<Rightarrow> real \<Rightarrow> real \<Rightarrow> calculate_locals option" where
  "RiceHuskMath_calculate_body self area paddy_yield gasifier_eff = do {
     let total_paddy = area * paddy_yield;
     let total_husk = total_paddy * HUSK_RATIO self;
     let energy_mj = total_husk * LHV self * gasifier_eff * GEN_EFF self;
     energy_kwh \<leftarrow> truediv energy_mj 3.6;
     let biochar_kg = total_husk * BIOCHAR_YIELD self;
     let ch4_saved = area * (EF_FLOODED self - EF_AWD self);
     let co2_equivalent = ch4_saved * 28;
     capacity_kw \<leftarrow> truediv energy_kwh 1000;
     let capex = py_max capacity_kw 5 * CAPEX_PER_KW self;
     let revenue = (energy_kwh * PRICE_ELEC self) + (biochar_kg * PRICE_CHAR self);
     let opex = capex * 0.10;
     let profit = revenue - opex;
     payback \<leftarrow> (if profit > 0 then truediv capex profit else Some 99.9);
     Some \<lparr> total_paddy = total_paddy,
            total_husk = total_husk,
            energy_mj = energy_mj,
            energy_kwh = energy_kwh,
            biochar_kg = biochar_kg,
            ch4_saved = ch4_saved,
            co2_equivalent = co2_equivalent,
            capacity_kw = capacity_kw,
            capex = capex,
            revenue = revenue,
            opex = opex,
            profit = profit,
            payback = payback \<rparr>
   }"

text \<open>The dictionary of lines 50--56, built from the locals.\<close>

definition result_dict :: "calculate_locals \<Rightarrow> (string \<rightharpoonup> real)" where
  "result_dict f =
     [ ''energy'' \<mapsto> energy_kwh f,
       ''biochar'' \<mapsto> biochar_kg f,
       ''co2'' \<mapsto> co2_equivalent f,
       ''revenue'' \<mapsto> revenue f,
       ''payback'' \<mapsto> payback f ]"

definition RiceHuskMath_calculate ::
  "RiceHuskMath \<Rightarrow> real \<Rightarrow> real \<Rightarrow> real \<Rightarrow> (string \<rightharpoonup> real) option" where
  "RiceHuskMath_calculate self area paddy_yield gasifier_eff = do {
     f \<leftarrow> RiceHuskMath_calculate_body self area paddy_yield gasifier_eff;
     Some (result_dict f)
   }"


subsection \<open>Variant B: \<^verbatim>\<open>calculate\<close> of the old web script\<close>

text \<open>
  \<^verbatim>\<open>Rice_Web_App_OLD_BACKUP.py.py\<close> lines 31--68: the constants are locals of the
  function; the payback is set by an \<^verbatim>\<open>if\<close>/\<^verbatim>\<open>else\<close> statement whose else branch
  assigns \<^verbatim>\<open>0\<close>.
\<close>

definition calculate_body :: "real \<Rightarrow> real \<Rightarrow> real \<Rightarrow> calculate_locals option" where
  "calculate_body area paddy_yield gasifier_eff = do {
     let HUSK_RATIO = 0.22;
     let LHV = 13.5;
     let GEN_EFF = 0.30;
     let BIOCHAR_YIELD = 0.20;
     let EF_FLOODED = 30;
     let EF_AWD = 16;
     let PRICE_ELEC = 7.0;
     let PRICE_CHAR = 15.0;
     let CAPEX_PER_KW = 80000;
     let total_paddy = area * paddy_yield;
     let total_husk = total_paddy * HUSK_RATIO;
     let energy_mj = total_husk * LHV * gasifier_eff * GEN_EFF;
     energy_kwh \<leftarrow> truediv energy_mj 3.6;
     let biochar_kg = total_husk * BIOCHAR_YIELD;
     let ch4_saved = area * (EF_FLOODED - EF_AWD);
     let co2_eq = ch4_saved * 28;
     capacity_kw \<leftarrow> truediv energy_kwh 1000;
     let capex = py_max capacity_kw 5 * CAPEX_PER_KW;
     let revenue = (energy_kwh * PRICE_ELEC) + (biochar_kg * PRICE_CHAR);
     let opex = capex * 0.10;
     let profit = revenue - opex;
     payback \<leftarrow> (if profit > 0 then truediv capex profit else Some 0);
     Some \<lparr> total_paddy = total_paddy,
            total_husk = total_husk,
            energy_mj = energy_mj,
            energy_kwh = energy_kwh,
            biochar_kg = biochar_kg,
            ch4_saved = ch4_saved,
            co2_equivalent = co2_eq,
            capacity_kw = capacity_kw,
            capex = capex,
            revenue = revenue,
            opex = opex,
            profit = profit,
            payback = payback \<rparr>
   }"

text \<open>Line 70: \<^verbatim>\<open>return energy_kwh, biochar_kg, co2_eq, revenue, payback\<close>.\<close>

definition calculate ::
  "real \<Rightarrow> real \<Rightarrow> real \<Rightarrow> (real \<times> real \<times> real \<times> real \<times> real) option" where
  "calculate area paddy_yield gasifier_eff = do {
     f \<leftarrow> calculate_body area paddy_yield gasifier_eff;
     Some (energy_kwh f, biochar_kg f, co2_equivalent f, revenue f, payback f)
   }"

section \<open>What a run computes\<close>

lemma truediv_nonzero: "b \<noteq> 0 \<Longrightarrow> truediv a b = Some (a / b)"
  by (simp add: truediv_def)

lemma guarded_truediv:
  "(if 0 < p then truediv c p else Some s) = Some (if 0 < p then c / p else s)"
  by (simp add: truediv_def)

lemma truediv_36: "truediv a 3.6 = Some (a / 3.6)"
  by (simp add: truediv_def)

lemma truediv_1000: "truediv a 1000 = Some (a / 1000)"
  by (simp add: truediv_def)

lemma calculations_values:
  "\<exists>v. calculations c area yield_per_ha efficiency season_days = Some v
     \<and> web_app_values.total_paddy v = area * yield_per_ha
     \<and> husk_mass v = web_app_values.total_paddy v * 0.22
     \<and> web_app_values.energy_mj v = husk_mass v * CV_HUSK c * efficiency
     \<and> web_app_values.energy_kwh v = web_app_values.energy_mj v / 3.6
     \<and> biochar_mass v = husk_mass v * scientific_constants.BIOCHAR_YIELD c
     \<and> methane_flooded v = scientific_constants.EF_FLOODED c * area * season_days
     \<and> methane_awd v = scientific_constants.EF_AWD c * area * season_days
     \<and> methane_avoided v = methane_flooded v - methane_awd v
     \<and> co2_eq_tons v = (methane_avoided v * 28) / 1000
     \<and> revenue_carbon v = co2_eq_tons v * PRICE_CARBON_CREDIT c
     \<and> revenue_elec v = web_app_values.energy_kwh v * scientific_constants.PRICE_ELEC c
     \<and> revenue_char v = biochar_mass v * scientific_constants.PRICE_CHAR c
     \<and> total_revenue v = revenue_elec v + revenue_char v + revenue_carbon v"
  by (simp add: calculations_def truediv_nonzero Let_def)

lemma RiceHuskMath_calculate_body_locals:
  "\<exists>f. RiceHuskMath_calculate_body self area paddy_yield gasifier_eff = Some f
     \<and> total_paddy f = area * paddy_yield
     \<and> total_husk f = total_paddy f * HUSK_RATIO self
     \<and> energy_mj f = total_husk f * LHV self * gasifier_eff * GEN_EFF self
     \<and> energy_kwh f = energy_mj f / 3.6
     \<and> biochar_kg f = total_husk f * BIOCHAR_YIELD self
     \<and> ch4_saved f = area * (EF_FLOODED self - EF_AWD self)
     \<and> co2_equivalent f = ch4_saved f * 28
     \<and> capacity_kw f = energy_kwh f / 1000
     \<and> capex f = py_max (capacity_kw f) 5 * CAPEX_PER_KW self
     \<and> revenue f = (energy_kwh f * PRICE_ELEC self) + (biochar_kg f * PRICE_CHAR self)
     \<and> opex f = capex f * 0.10
     \<and> profit f = revenue f - opex f
     \<and> payback f = (if profit f > 0 then capex f / profit f else 99.9)"
  apply (simp only: RiceHuskMath_calculate_body_def Let_def truediv_36 truediv_1000
      guarded_truediv Option.bind_lunit)
  apply (rule exI, rule conjI, rule refl)
  apply (simp only: calculate_locals.select_convs simp_thms)
  done

lemma calculate_body_locals:
  "\<exists>f. calculate_body area paddy_yield gasifier_eff = Some f
     \<and> total_paddy f = area * paddy_yield
     \<and> total_husk f = total_paddy f * 0.22
     \<and> energy_mj f = total_husk f * 13.5 * gasifier_eff * 0.30
     \<and> energy_kwh f = energy_mj f / 3.6
     \<and> biochar_kg f = total_husk f * 0.20
     \<and> ch4_saved f = area * (30 - 16)
     \<and> co2_equivalent f = ch4_saved f * 28
     \<and> capacity_kw f = energy_kwh f / 1000
     \<and> capex f = py_max (capacity_kw f) 5 * 80000
     \<and> revenue f = (energy_kwh f * 7.0) + (biochar_kg f * 15.0)
     \<and> opex f = capex f * 0.10
     \<and> profit f = revenue f - opex f
     \<and> payback f = (if profit f > 0 then capex f / profit f else 0)"
  by (simp add: calculate_body_def truediv_nonzero guarded_truediv Let_def)

subsection \<open>The concrete scenarios\<close>

text \<open>
  Claim C1. With the constants of the web scripts (husk fraction 0.22, calorific value
  14, biochar yield 0.25, emission factors 1.30 and 0.75 per hectare and day, warming
  potential 28), the inputs area 5, yield 4500, efficiency 0.70 and season 120 days run
  without exception and give total paddy 22500, husk mass 4950, energy
  \<open>4950 * 14 * 0.70 / 3.6 = 13475\<close> kWh, biochar 1237.5, flooded methane 780, AWD
  methane 450, methane avoided 330 and 9.24 tons of CO2 equivalent.
\<close>

theorem variant_A_concrete_scenario:
  "\<exists>v. calculations SCIENTIFIC_CONSTANTS 5 4500 0.70 120 = Some v
     \<and> web_app_values.total_paddy v = 22500
     \<and> husk_mass v = 4950
     \<and> web_app_values.energy_kwh v = 4950 * 14 * 0.70 / 3.6
     \<and> web_app_values.energy_kwh v = 13475
     \<and> biochar_mass v = 1237.5
     \<and> methane_flooded v = 780
     \<and> methane_awd v = 450
     \<and> methane_avoided v = 330
     \<and> co2_eq_tons v = 9.24"
proof -
  obtain v where v: "calculations SCIENTIFIC_CONSTANTS 5 4500 0.70 120 = Some v"
    and f: "web_app_values.total_paddy v = 5 * 4500"
      "husk_mass v = web_app_values.total_paddy v * 0.22"
      "web_app_values.energy_mj v = husk_mass v * CV_HUSK SCIENTIFIC_CONSTANTS * 0.70"
      "web_app_values.energy_kwh v = web_app_values.energy_mj v / 3.6"
      "biochar_mass v = husk_mass v * scientific_constants.BIOCHAR_YIELD SCIENTIFIC_CONSTANTS"
      "methane_flooded v = scientific_constants.EF_FLOODED SCIENTIFIC_CONSTANTS * 5 * 120"
      "methane_awd v = scientific_constants.EF_AWD SCIENTIFIC_CONSTANTS * 5 * 120"
      "methane_avoided v = methane_flooded v - methane_awd v"
      "co2_eq_tons v = (methane_avoided v * 28) / 1000"
    using calculations_values [of SCIENTIFIC_CONSTANTS 5 4500 "0.70" 120] by blast
  show ?thesis
    using v f by (simp add: SCIENTIFIC_CONSTANTS_def)
qed

text \<open>
  Claim C2. With the constants of variant B (husk ratio 0.22, LHV 13.5, generator
  efficiency 0.30, biochar yield 0.20, flat factors 30 and 16, warming potential 28),
  the inputs area 50, yield 4500, efficiency 0.70 give, in the desktop program and in
  the old web script alike, total husk 49500, energy
  \<open>49500 * 13.5 * 0.70 * 0.30 / 3.6 = 38981.25\<close> kWh, biochar 9900, methane saved 700
  and CO2 equivalent 19600; the returned dictionary and the returned tuple carry the
  energy, biochar and CO2 values.
\<close>

theorem variant_B_concrete_scenario:
  "\<exists>f g rev pb.
       RiceHuskMath_calculate_body RiceHuskMath_init 50 4500 0.70 = Some f
     \<and> total_husk f = 49500
     \<and> energy_kwh f = 49500 * 13.5 * 0.70 * 0.30 / 3.6
     \<and> energy_kwh f = 38981.25
     \<and> biochar_kg f = 9900
     \<and> ch4_saved f = 700
     \<and> co2_equivalent f = 19600
     \<and> RiceHuskMath_calculate RiceHuskMath_init 50 4500 0.70 = Some (result_dict f)
     \<and> result_dict f ''energy'' = Some 38981.25
     \<and> result_dict f ''biochar'' = Some 9900
     \<and> result_dict f ''co2'' = Some 19600
     \<and> calculate_body 50 4500 0.70 = Some g
     \<and> total_husk g = 49500
     \<and> energy_kwh g = 38981.25
     \<and> biochar_kg g = 9900
     \<and> ch4_saved g = 700
     \<and> co2_equivalent g = 19600
     \<and> calculate 50 4500 0.70 = Some (38981.25, 9900, 19600, rev, pb)"
proof -
  obtain f where f: "RiceHuskMath_calculate_body RiceHuskMath_init 50 4500 0.70 = Some f"
    and ff: "total_paddy f = 50 * 4500"
      "total_husk f = total_paddy f * HUSK_RATIO RiceHuskMath_init"
      "energy_mj f = total_husk f * LHV RiceHuskMath_init * 0.70 * GEN_EFF RiceHuskMath_init"
      "energy_kwh f = energy_mj f / 3.6"
      "biochar_kg f = total_husk f * BIOCHAR_YIELD RiceHuskMath_init"
      "ch4_saved f = 50 * (EF_FLOODED RiceHuskMath_init - EF_AWD RiceHuskMath_init)"
      "co2_equivalent f = ch4_saved f * 28"
    using RiceHuskMath_calculate_body_locals [of RiceHuskMath_init 50 4500 "0.70"] by blast
  obtain g where g: "calculate_body 50 4500 0.70 = Some g"
    and gg: "total_paddy g = 50 * 4500"
      "total_husk g = total_paddy g * 0.22"
      "energy_mj g = total_husk g * 13.5 * 0.70 * 0.30"
      "energy_kwh g = energy_mj g / 3.6"
      "biochar_kg g = total_husk g * 0.20"
      "ch4_saved g = 50 * (30 - 16)"
      "co2_equivalent g = ch4_saved g * 28"
    using calculate_body_locals [of 50 4500 "0.70"] by blast
  have 1: "total_husk f = 49500" "energy_kwh f = 38981.25" "biochar_kg f = 9900"
    "ch4_saved f = 700" "co2_equivalent f = 19600"
    using ff by (simp_all add: RiceHuskMath_init_def)
  have 2: "total_husk g = 49500" "energy_kwh g = 38981.25" "biochar_kg g = 9900"
    "ch4_saved g = 700" "co2_equivalent g = 19600"
    using gg by simp_all
  have 3: "RiceHuskMath_calculate RiceHuskMath_init 50 4500 0.70 = Some (result_dict f)"
    using f by (simp add: RiceHuskMath_calculate_def)
  have 4: "result_dict f ''energy'' = Some 38981.25" "result_dict f ''biochar'' = Some 9900"
     "result_dict f ''co2'' = Some 19600"
    using 1 by (simp_all add: result_dict_def)
  have 5: "calculate 50 4500 0.70 = Some (38981.25, 9900, 19600, revenue g, payback g)"
    using g 2 by (simp add: calculate_def)
  show ?thesis using f g 1 2 3 4 5 by simp
qed

subsection \<open>The payback guard\<close>

text \<open>
  Claim C3. In both variant B sources, for every input (and, in the desktop program,
  every value of the object's attributes) the run returns without a division fault.
  When the computed profit (revenue minus opex) is not positive, no division by the
  profit takes place and the payback is the fixed sentinel of that source, 99.9 in the
  desktop program and 0 in the old web script, which is neither negative nor infinite;
  the payback is \<open>capex / profit\<close> exactly when the profit is positive.
\<close>

theorem payback_guard:
  "\<exists>f g. RiceHuskMath_calculate_body self area paddy_yield gasifier_eff = Some f
     \<and> RiceHuskMath_calculate self area paddy_yield gasifier_eff = Some (result_dict f)
     \<and> result_dict f ''payback'' = Some (payback f)
     \<and> (profit f \<le> 0 \<longrightarrow> payback f = 99.9 \<and> 0 \<le> payback f)
     \<and> (0 < profit f \<longrightarrow> payback f = capex f / profit f)
     \<and> calculate_body area paddy_yield gasifier_eff = Some g
     \<and> calculate area paddy_yield gasifier_eff =
           Some (energy_kwh g, biochar_kg g, co2_equivalent g, revenue g, payback g)
     \<and> (profit g \<le> 0 \<longrightarrow> payback g = 0 \<and> 0 \<le> payback g)
     \<and> (0 < profit g \<longrightarrow> payback g = capex g / profit g)"
proof -
  obtain f where f: "RiceHuskMath_calculate_body self area paddy_yield gasifier_eff = Some f"
    and pf: "payback f = (if profit f > 0 then capex f / profit f else 99.9)"
    using RiceHuskMath_calculate_body_locals [of self area paddy_yield gasifier_eff] by blast
  obtain g where g: "calculate_body area paddy_yield gasifier_eff = Some g"
    and pg: "payback g = (if profit g > 0 then capex g / profit g else 0)"
    using calculate_body_locals [of area paddy_yield gasifier_eff] by blast
  have 1: "RiceHuskMath_calculate self area paddy_yield gasifier_eff = Some (result_dict f)"
    using f by (simp add: RiceHuskMath_calculate_def)
  have 2: "result_dict f ''payback'' = Some (payback f)"
    by (simp add: result_dict_def)
  have 3: "calculate area paddy_yield gasifier_eff =
           Some (energy_kwh g, biochar_kg g, co2_equivalent g, revenue g, payback g)"
    using g by (simp add: calculate_def)
  have 4: "profit f \<le> 0 \<longrightarrow> payback f = 99.9 \<and> 0 \<le> payback f" "0 < profit f \<longrightarrow> payback f = capex f / profit f"
    using pf by simp_all
  have 5: "profit g \<le> 0 \<longrightarrow> payback g = 0 \<and> 0 \<le> payback g" "0 < profit g \<longrightarrow> payback g = capex g / profit g"
    using pg by simp_all
  show ?thesis using f g 1 2 3 4 5 by blast
qed

text \<open>Two runs of each source, evaluated: a small farm with a loss, a large one with a profit.\<close>

lemma RiceHuskMath_body_small_farm:
  "RiceHuskMath_calculate_body RiceHuskMath_init 1 2000 0.40 =
     Some \<lparr> total_paddy = 2000, total_husk = 440, energy_mj = 712.8, energy_kwh = 198,
            biochar_kg = 88, ch4_saved = 14, co2_equivalent = 392, capacity_kw = 0.198,
            capex = 400000, revenue = 2706, opex = 40000, profit = - 37294,
            payback = 99.9 \<rparr>"
  by (simp add: RiceHuskMath_calculate_body_def RiceHuskMath_init_def truediv_def py_max_def Let_def)

lemma calculate_body_small_farm:
  "calculate_body 1 2000 0.40 =
     Some \<lparr> total_paddy = 2000, total_husk = 440, energy_mj = 712.8, energy_kwh = 198,
            biochar_kg = 88, ch4_saved = 14, co2_equivalent = 392, capacity_kw = 0.198,
            capex = 400000, revenue = 2706, opex = 40000, profit = - 37294,
            payback = 0 \<rparr>"
  by (simp add: calculate_body_def truediv_def py_max_def Let_def)

lemma RiceHuskMath_body_large_farm:
  "RiceHuskMath_calculate_body RiceHuskMath_init 50 4500 0.70 =
     Some \<lparr> total_paddy = 225000, total_husk = 49500, energy_mj = 140332.5,
            energy_kwh = 38981.25, biochar_kg = 9900, ch4_saved = 700,
            co2_equivalent = 19600, capacity_kw = 38.98125, capex = 3118500,
            revenue = 421368.75, opex = 311850, profit = 109518.75,
            payback = 1680 / 59 \<rparr>"
  by (simp add: RiceHuskMath_calculate_body_def RiceHuskMath_init_def truediv_def py_max_def Let_def)

lemma calculate_body_large_farm:
  "calculate_body 50 4500 0.70 =
     Some \<lparr> total_paddy = 225000, total_husk = 49500, energy_mj = 140332.5,
            energy_kwh = 38981.25, biochar_kg = 9900, ch4_saved = 700,
            co2_equivalent = 19600, capacity_kw = 38.98125, capex = 3118500,
            revenue = 421368.75, opex = 311850, profit = 109518.75,
            payback = 1680 / 59 \<rparr>"
  by (simp add: calculate_body_def truediv_def py_max_def Let_def)

theorem payback_guard_witness:
  "(\<exists>f g. RiceHuskMath_calculate_body RiceHuskMath_init 1 2000 0.40 = Some f
       \<and> profit f = - 37294 \<and> profit f \<le> 0 \<and> payback f = 99.9
       \<and> calculate_body 1 2000 0.40 = Some g
       \<and> profit g = - 37294 \<and> profit g \<le> 0 \<and> payback g = 0)
   \<and> (\<exists>f g. RiceHuskMath_calculate_body RiceHuskMath_init 50 4500 0.70 = Some f
       \<and> 0 < profit f \<and> payback f = capex f / profit f \<and> payback f = 1680 / 59
       \<and> calculate_body 50 4500 0.70 = Some g
       \<and> 0 < profit g \<and> payback g = capex g / profit g \<and> payback g = 1680 / 59)"
proof
  obtain f g where
    "RiceHuskMath_calculate_body RiceHuskMath_init 1 2000 0.40 = Some f"
    "profit f \<le> 0 \<longrightarrow> payback f = 99.9"
    "calculate_body 1 2000 0.40 = Some g"
    "profit g \<le> 0 \<longrightarrow> payback g = 0"
    using payback_guard [of RiceHuskMath_init 1 2000 "0.40"] by blast
  then show "\<exists>f g. RiceHuskMath_calculate_body RiceHuskMath_init 1 2000 0.40 = Some f
       \<and> profit f = - 37294 \<and> profit f \<le> 0 \<and> payback f = 99.9
       \<and> calculate_body 1 2000 0.40 = Some g
       \<and> profit g = - 37294 \<and> profit g \<le> 0 \<and> payback g = 0"
    using RiceHuskMath_body_small_farm calculate_body_small_farm by auto
next
  obtain f g where
    "RiceHuskMath_calculate_body RiceHuskMath_init 50 4500 0.70 = Some f"
    "0 < profit f \<longrightarrow> payback f = capex f / profit f"
    "calculate_body 50 4500 0.70 = Some g"
    "0 < profit g \<longrightarrow> payback g = capex g / profit g"
    using payback_guard [of RiceHuskMath_init 50 4500 "0.70"] by blast
  then show "\<exists>f g. RiceHuskMath_calculate_body RiceHuskMath_init 50 4500 0.70 = Some f
       \<and> 0 < profit f \<and> payback f = capex f / profit f \<and> payback f = 1680 / 59
       \<and> calculate_body 50 4500 0.70 = Some g
       \<and> 0 < profit g \<and> payback g = capex g / profit g \<and> payback g = 1680 / 59"
    using RiceHuskMath_body_large_farm calculate_body_large_farm by auto
qed

subsection \<open>From the locals to the returned value\<close>

lemma RiceHuskMath_calculate_result:
  "RiceHuskMath_calculate_body self area paddy_yield gasifier_eff = Some f \<Longrightarrow>
   RiceHuskMath_calculate self area paddy_yield gasifier_eff = Some (result_dict f)"
  by (simp add: RiceHuskMath_calculate_def)

lemma calculate_result:
  "calculate_body area paddy_yield gasifier_eff = Some g \<Longrightarrow>
   calculate area paddy_yield gasifier_eff =
     Some (energy_kwh g, biochar_kg g, co2_equivalent g, revenue g, payback g)"
  by (simp add: calculate_def)

lemma result_dict_lookup:
  "result_dict f ''energy'' = Some (energy_kwh f)"
  "result_dict f ''biochar'' = Some (biochar_kg f)"
  "result_dict f ''co2'' = Some (co2_equivalent f)"
  "result_dict f ''revenue'' = Some (revenue f)"
  "result_dict f ''payback'' = Some (payback f)"
  by (simp_all add: result_dict_def)

lemma RiceHuskMath_init_fields:
  "HUSK_RATIO RiceHuskMath_init = 0.22"
  "LHV RiceHuskMath_init = 13.5"
  "GEN_EFF RiceHuskMath_init = 0.30"
  "BIOCHAR_YIELD RiceHuskMath_init = 0.20"
  "EF_FLOODED RiceHuskMath_init = 30"
  "EF_AWD RiceHuskMath_init = 16"
  "PRICE_ELEC RiceHuskMath_init = 7.0"
  "PRICE_CHAR RiceHuskMath_init = 15.0"
  "CAPEX_PER_KW RiceHuskMath_init = 80000"
  by (simp_all add: RiceHuskMath_init_def)


subsection \<open>The two variant B sources compared\<close>

text \<open>
  Claim C9. With the attributes set by \<^verbatim>\<open>__init__\<close>, the desktop program's method and
  the old web script's function compute, for every input, the same energy, biochar,
  CO2-equivalent and revenue values (indeed the same value of every local but the
  payback), and the same payback whenever the profit is positive. When the profit is
  not positive the old web script returns payback 0 and the desktop program 99.9.
\<close>

theorem variant_B_sources_agree:
  "\<exists>f g. RiceHuskMath_calculate_body RiceHuskMath_init area paddy_yield gasifier_eff = Some f
     \<and> calculate_body area paddy_yield gasifier_eff = Some g
     \<and> RiceHuskMath_calculate RiceHuskMath_init area paddy_yield gasifier_eff
           = Some (result_dict f)
     \<and> calculate area paddy_yield gasifier_eff
           = Some (energy_kwh g, biochar_kg g, co2_equivalent g, revenue g, payback g)
     \<and> result_dict f ''energy'' = Some (energy_kwh g)
     \<and> result_dict f ''biochar'' = Some (biochar_kg g)
     \<and> result_dict f ''co2'' = Some (co2_equivalent g)
     \<and> result_dict f ''revenue'' = Some (revenue g)
     \<and> f\<lparr>payback := payback g\<rparr> = g
     \<and> (0 < profit g \<longrightarrow> result_dict f ''payback'' = Some (payback g))
     \<and> (profit g \<le> 0 \<longrightarrow> payback g = 0 \<and> result_dict f ''payback'' = Some 99.9)"
proof -
  obtain f where f: "RiceHuskMath_calculate_body RiceHuskMath_init area paddy_yield gasifier_eff = Some f"
    and ff: "total_paddy f = area * paddy_yield"
      "total_husk f = total_paddy f * 0.22"
      "energy_mj f = total_husk f * 13.5 * gasifier_eff * 0.30"
      "energy_kwh f = energy_mj f / 3.6"
      "biochar_kg f = total_husk f * 0.20"
      "ch4_saved f = area * (30 - 16)"
      "co2_equivalent f = ch4_saved f * 28"
      "capacity_kw f = energy_kwh f / 1000"
      "capex f = py_max (capacity_kw f) 5 * 80000"
      "revenue f = (energy_kwh f * 7.0) + (biochar_kg f * 15.0)"
      "opex f = capex f * 0.10"
      "profit f = revenue f - opex f"
    and pf: "payback f = (if profit f > 0 then capex f / profit f else 99.9)"
    using RiceHuskMath_calculate_body_locals [of RiceHuskMath_init area paddy_yield gasifier_eff]
    unfolding RiceHuskMath_init_fields by blast
  obtain g where g: "calculate_body area paddy_yield gasifier_eff = Some g"
    and gg: "total_paddy g = area * paddy_yield"
      "total_husk g = total_paddy g * 0.22"
      "energy_mj g = total_husk g * 13.5 * gasifier_eff * 0.30"
      "energy_kwh g = energy_mj g / 3.6"
      "biochar_kg g = total_husk g * 0.20"
      "ch4_saved g = area * (30 - 16)"
      "co2_equivalent g = ch4_saved g * 28"
      "capacity_kw g = energy_kwh g / 1000"
      "capex g = py_max (capacity_kw g) 5 * 80000"
      "revenue g = (energy_kwh g * 7.0) + (biochar_kg g * 15.0)"
      "opex g = capex g * 0.10"
      "profit g = revenue g - opex g"
    and pg: "payback g = (if profit g > 0 then capex g / profit g else 0)"
    using calculate_body_locals [of area paddy_yield gasifier_eff] by blast
  have e1: "total_paddy f = total_paddy g" using ff(1) gg(1) by simp
  have e2: "total_husk f = total_husk g" using ff(2) gg(2) e1 by simp
  have e3: "energy_mj f = energy_mj g" using ff(3) gg(3) e2 by simp
  have e4: "energy_kwh f = energy_kwh g" using ff(4) gg(4) e3 by simp
  have e5: "biochar_kg f = biochar_kg g" using ff(5) gg(5) e2 by simp
  have e6: "ch4_saved f = ch4_saved g" using ff(6) gg(6) by simp
  have e7: "co2_equivalent f = co2_equivalent g" using ff(7) gg(7) e6 by simp
  have e8: "capacity_kw f = capacity_kw g" using ff(8) gg(8) e4 by simp
  have e9: "capex f = capex g" using ff(9) gg(9) e8 by simp
  have e10: "revenue f = revenue g" using ff(10) gg(10) e4 e5 by simp
  have e11: "opex f = opex g" using ff(11) gg(11) e9 by simp
  have e12: "profit f = profit g" using ff(12) gg(12) e10 e11 by simp
  have rec: "f\<lparr>payback := payback g\<rparr> = g"
    using e1 e2 e3 e4 e5 e6 e7 e8 e9 e10 e11 e12 by (intro calculate_locals.equality) simp_all
  have p1: "0 < profit g \<longrightarrow> result_dict f ''payback'' = Some (payback g)"
    using pf pg e9 e12 by (simp add: result_dict_lookup)
  have p2: "profit g \<le> 0 \<longrightarrow> payback g = 0 \<and> result_dict f ''payback'' = Some 99.9"
    using pf pg e12 by (simp add: result_dict_lookup)
  show ?thesis
    using f g RiceHuskMath_calculate_result [OF f] calculate_result [OF g]
      e4 e5 e7 e10 rec p1 p2
    by (intro exI [of _ f] exI [of _ g]) (simp add: result_dict_lookup)
qed

theorem variant_B_sources_agree_witness:
  "(\<exists>f g. RiceHuskMath_calculate_body RiceHuskMath_init 50 4500 0.70 = Some f
        \<and> calculate_body 50 4500 0.70 = Some g
        \<and> 0 < profit g \<and> result_dict f ''payback'' = Some (payback g)
        \<and> payback g = 1680 / 59)
   \<and> (\<exists>f g. RiceHuskMath_calculate_body RiceHuskMath_init 1 2000 0.40 = Some f
        \<and> calculate_body 1 2000 0.40 = Some g
        \<and> profit g \<le> 0 \<and> payback g = 0 \<and> result_dict f ''payback'' = Some 99.9)"
proof
  obtain f g where
    "RiceHuskMath_calculate_body RiceHuskMath_init 50 4500 0.70 = Some f"
    "calculate_body 50 4500 0.70 = Some g"
    "0 < profit g \<longrightarrow> result_dict f ''payback'' = Some (payback g)"
    using variant_B_sources_agree [of 50 4500 "0.70"] by blast
  then show "\<exists>f g. RiceHuskMath_calculate_body RiceHuskMath_init 50 4500 0.70 = Some f
        \<and> calculate_body 50 4500 0.70 = Some g
        \<and> 0 < profit g \<and> result_dict f ''payback'' = Some (payback g)
        \<and> payback g = 1680 / 59"
    using calculate_body_large_farm by auto
next
  obtain f g where
    "RiceHuskMath_calculate_body RiceHuskMath_init 1 2000 0.40 = Some f"
    "calculate_body 1 2000 0.40 = Some g"
    "profit g \<le> 0 \<longrightarrow> payback g = 0 \<and> result_dict f ''payback'' = Some 99.9"
    using variant_B_sources_agree [of 1 2000 "0.40"] by blast
  then show "\<exists>f g. RiceHuskMath_calculate_body RiceHuskMath_init 1 2000 0.40 = Some f
        \<and> calculate_body 1 2000 0.40 = Some g
        \<and> profit g \<le> 0 \<and> payback g = 0 \<and> result_dict f ''payback'' = Some 99.9"
    using calculate_body_small_farm by auto
qed

subsection \<open>Inputs outside the declared domain\<close>



subsection \<open>Statelessness\<close>


subsection \<open>The emissions outputs depend on the area alone\<close>


section \<open>The outputs as linear forms\<close>





subsection \<open>Variant A returns non-negative values\<close>



subsection \<open>Methane avoided is non-negative\<close>



subsection \<open>Monotonicity in area and yield\<close>









end
